theory Spec2Isabelle
  imports Complex_Main "HOL-Library.Word"
begin

section \<open>JavaScript values\<close>

text \<open>
  A JavaScript string is a sequence of UTF-16 code units and \<open>.length\<close> counts code
  units, so a string is a list of 16-bit words. \<open>ascii\<close> embeds the ASCII literals of
  the source.
\<close>

type_synonym js_string = "16 word list"

definition ascii :: "string \<Rightarrow> js_string" where
  "ascii s = map of_char s"

text \<open>
  A number is a double: not-a-number, an infinity, or a finite value, kept here as a
  rational (every finite double is one; \<open>-0\<close> is identified with \<open>0\<close>, both are falsy).
  Values are the data a caller passes and a server returns; functions, symbols and
  BigInts are left out.
\<close>

datatype js_number = NaN | PosInfinity | NegInfinity | Finite rat

datatype js_value =
    JUndefined
  | JNull
  | JBool bool
  | JNum js_number
  | JStr js_string
  | JArr "js_value list"
  | JObj "(js_string \<times> js_value) list"

type_synonym js_object = "(js_string \<times> js_value) list"

text \<open>
  What can be thrown or be the reason of a rejection: \<open>new Error(message)\<close>, the
  TypeError the runtime raises when a non-function is called, or any other value
  (the constructor throws a string; a transport rejects with a reason of its own).
\<close>

datatype js_thrown = Error js_string | TypeError | Thrown js_value

text \<open>\<open>!v\<close> is \<open>\<not> truthy v\<close>.\<close>

fun truthy :: "js_value \<Rightarrow> bool" where
  "truthy JUndefined = False"
| "truthy JNull = False"
| "truthy (JBool b) = b"
| "truthy (JNum NaN) = False"
| "truthy (JNum PosInfinity) = True"
| "truthy (JNum NegInfinity) = True"
| "truthy (JNum (Finite q)) = (q \<noteq> 0)"
| "truthy (JStr s) = (s \<noteq> [])"
| "truthy (JArr xs) = True"
| "truthy (JObj ps) = True"

text \<open>\<open>o.k\<close> on an object: the property's value, \<open>undefined\<close> when it has none.\<close>

fun get_prop :: "js_object \<Rightarrow> js_string \<Rightarrow> js_value" where
  "get_prop [] k = JUndefined"
| "get_prop ((k', v) # ps) k = (if k' = k then v else get_prop ps k)"

section \<open>The transport\<close>

text \<open>
  \<open>fetch\<close> is a global of the runtime, not code of the binding: it is a parameter of
  every operation. A request records what the source passes to it; \<open>body\<close> holds
  the argument of \<open>JSON.stringify\<close> (the serialisation itself is the runtime's).
\<close>

datatype http_verb = GET | POST

record request =
  url :: js_string
  http_method :: http_verb
  headers :: "(js_string \<times> js_value) list"
  body :: "js_value option"

text \<open>
  The value \<open>await fetch(...)\<close> yields. \<open>text_body\<close> and \<open>json_body\<close> are how the
  promises of \<open>res.text()\<close> and \<open>res.json()\<close> settle (\<open>Inl\<close>: rejected, as
  \<open>res.json()\<close> is on a malformed body). \<open>catch_prop\<close> is what \<open>res.catch\<close> is:
  a Response of the Fetch standard has no such member (\<open>catch\<close> is a method of
  promises, and \<open>res\<close> is the awaited value), so calling it raises a TypeError;
  \<open>Calls x\<close> stands for a response object that does carry a callable \<open>catch\<close>, one
  that returns normally after handing its callback the reason \<open>x\<close>, if any.
\<close>

datatype catch_member = Missing | Calls "js_thrown option"

record response =
  status :: nat
  statusText :: js_string
  text_body :: "js_thrown + js_string"
  json_body :: "js_thrown + js_value"
  catch_prop :: catch_member

text \<open>
  How the promise returned by \<open>fetch\<close> settles. (A transport that never answers
  leaves every operation suspended at its \<open>await\<close>; it is not modelled.)
\<close>

datatype fetch_outcome = FetchRejects js_thrown | FetchFulfils response

type_synonym transport = "request \<Rightarrow> fetch_outcome"

section \<open>Promises\<close>

datatype promise_state = Pending | Fulfilled js_value | Rejected js_thrown

text \<open>
  One call of an operation: the state of the promise handed to the caller, the
  requests passed to \<open>fetch\<close> in order, and the exception that ended the executor, if
  any. The executor is an \<open>async\<close> function, so an exception inside it rejects the
  executor's own promise, which \<open>new Promise\<close> discards: the caller's promise is not
  touched by it.
\<close>

record run =
  promise :: promise_state
  sent :: "request list"
  uncaught :: "js_thrown option"

definition start :: run where
  "start = \<lparr>promise = Pending, sent = [], uncaught = None\<rparr>"

text \<open>The resolving functions: the first call settles the promise, later calls do nothing.\<close>

definition resolve :: "js_value \<Rightarrow> run \<Rightarrow> run" where
  "resolve v r = (if promise r = Pending then r\<lparr>promise := Fulfilled v\<rparr> else r)"

definition reject :: "js_thrown \<Rightarrow> run \<Rightarrow> run" where
  "reject e r = (if promise r = Pending then r\<lparr>promise := Rejected e\<rparr> else r)"

definition throw :: "js_thrown \<Rightarrow> run \<Rightarrow> run" where
  "throw e r = r\<lparr>uncaught := Some e\<rparr>"

text \<open>Passing a request to \<open>fetch\<close> is recorded.\<close>

definition call_fetch :: "request \<Rightarrow> run \<Rightarrow> run" where
  "call_fetch q r = r\<lparr>sent := sent r @ [q]\<rparr>"

text \<open>\<open>res.catch(reject)\<close>: \<open>Inl\<close> is the exception raised by the call.\<close>

definition res_catch :: "response \<Rightarrow> run \<Rightarrow> js_thrown + run" where
  "res_catch res r =
     (case catch_prop res of
        Missing \<Rightarrow> Inl TypeError
      | Calls None \<Rightarrow> Inr r
      | Calls (Some e) \<Rightarrow> Inr (reject e r))"

text \<open>
  \<open>resolve(p.catch(reject))\<close> for a promise \<open>p\<close> that settles as given. A pending
  promise is locked to \<open>p.catch(reject)\<close> at once, so when \<open>p\<close> is rejected the
  handler's \<open>reject\<close> comes too late and does nothing, and the handler's return value
  \<open>undefined\<close> is what the promise is fulfilled with.
\<close>

definition resolve_caught :: "js_thrown + js_value \<Rightarrow> run \<Rightarrow> run" where
  "resolve_caught p r =
     (case p of
        Inr v \<Rightarrow> resolve v r
      | Inl e \<Rightarrow> resolve JUndefined r)"

section \<open>The client\<close>

text \<open>
  The constructor captures \<open>apiKey\<close> and builds the ten operations as closures over
  it. Arguments have the types the doc comments declare: \<open>code\<close> is a string,
  \<open>options\<close> an object; \<open>amount\<close> and \<open>payments\<close> are passed on unexamined.
\<close>

record client =
  apiKey :: js_value

definition Snail :: "js_value \<Rightarrow> js_thrown + client" where
  "Snail k =
     (if \<not> truthy k then Inl (Thrown (JStr (ascii ''You need to provide an API key!'')))
      else Inr \<lparr>apiKey = k\<rparr>)"

definition auth_headers :: "client \<Rightarrow> (js_string \<times> js_value) list" where
  "auth_headers c =
     [(ascii ''Authorization'', apiKey c),
      (ascii ''Content-Type'', JStr (ascii ''application/json''))]"

definition verifyPayment :: "client \<Rightarrow> transport \<Rightarrow> js_string \<Rightarrow> run" where
  "verifyPayment c fetch code =
     (if length code \<noteq> 10 then resolve (JBool False) start
      else
        let req = \<lparr>url = ascii ''https://snailpay.app/verify-payment?code='' @ code,
                   http_method = GET, headers = auth_headers c, body = None\<rparr>;
            r = call_fetch req start
        in case fetch req of
             FetchRejects e \<Rightarrow> throw e r
           | FetchFulfils res \<Rightarrow>
               (case res_catch res r of
                  Inl e \<Rightarrow> throw e r
                | Inr r' \<Rightarrow>
                    if status res \<noteq> 200 then resolve (JBool False) r'
                    else resolve_caught (json_body res) r'))"

definition missing_fields :: js_thrown where
  "missing_fields = Error (ascii ''You need to provide a name and a price for your product!'')"

definition link_body :: "js_object \<Rightarrow> js_value" where
  "link_body options =
     JObj [(ascii ''image'', get_prop options (ascii ''image'')),
           (ascii ''name'', get_prop options (ascii ''name'')),
           (ascii ''price'', get_prop options (ascii ''price''))]"

definition createPaymentLink :: "client \<Rightarrow> transport \<Rightarrow> js_object \<Rightarrow> run" where
  "createPaymentLink c fetch options =
     (let r0 = (if \<not> truthy (get_prop options (ascii ''name'')) \<or>
                   \<not> truthy (get_prop options (ascii ''price''))
                then reject missing_fields start else start);
          req = \<lparr>url = ascii ''https://snailpay.app/payment-link'',
                 http_method = POST, headers = auth_headers c,
                 body = Some (link_body options)\<rparr>;
          r = call_fetch req r0
      in case fetch req of
           FetchRejects e \<Rightarrow> throw e r
         | FetchFulfils res \<Rightarrow>
             (case res_catch res r of
                Inl e \<Rightarrow> throw e r
              | Inr r' \<Rightarrow>
                  if status res \<noteq> 200 then reject (Error (statusText res)) r'
                  else (case text_body res of
                          Inl e \<Rightarrow> throw e r'
                        | Inr u \<Rightarrow> resolve (JStr u) r')))"

definition createSubscriptionLink :: "client \<Rightarrow> transport \<Rightarrow> js_object \<Rightarrow> run" where
  "createSubscriptionLink c fetch options =
     (let r0 = (if \<not> truthy (get_prop options (ascii ''name'')) \<or>
                   \<not> truthy (get_prop options (ascii ''price''))
                then reject missing_fields start else start);
          req = \<lparr>url = ascii ''https://snailpay.app/subscription-link'',
                 http_method = POST, headers = auth_headers c,
                 body = Some (link_body options)\<rparr>;
          r = call_fetch req r0
      in case fetch req of
           FetchRejects e \<Rightarrow> throw e r
         | FetchFulfils res \<Rightarrow>
             (case res_catch res r of
                Inl e \<Rightarrow> throw e r
              | Inr r' \<Rightarrow>
                  if status res \<noteq> 200 then reject (Error (statusText res)) r'
                  else (case text_body res of
                          Inl e \<Rightarrow> throw e r'
                        | Inr u \<Rightarrow> resolve (JStr u) r')))"

text \<open>
  The five list operations differ in the path only; \<open>list_at\<close> is their common
  body, a GET whose 200 response is decoded with \<open>await res.json()\<close>.
\<close>

definition list_at :: "js_string \<Rightarrow> client \<Rightarrow> transport \<Rightarrow> run" where
  "list_at u c fetch =
     (let req = \<lparr>url = u, http_method = GET, headers = auth_headers c, body = None\<rparr>;
          r = call_fetch req start
      in case fetch req of
           FetchRejects e \<Rightarrow> throw e r
         | FetchFulfils res \<Rightarrow>
             (case res_catch res r of
                Inl e \<Rightarrow> throw e r
              | Inr r' \<Rightarrow>
                  if status res \<noteq> 200 then reject (Error (statusText res)) r'
                  else (case json_body res of
                          Inl e \<Rightarrow> throw e r'
                        | Inr v \<Rightarrow> resolve v r')))"

definition listPayments :: "client \<Rightarrow> transport \<Rightarrow> run" where
  "listPayments = list_at (ascii ''https://snailpay.app/payment-list'')"

definition listSubscriptions :: "client \<Rightarrow> transport \<Rightarrow> run" where
  "listSubscriptions = list_at (ascii ''https://snailpay.app/subscription-list'')"

definition listSubscriptionLinks :: "client \<Rightarrow> transport \<Rightarrow> run" where
  "listSubscriptionLinks = list_at (ascii ''https://snailpay.app/subscription-link-list'')"

definition listPaymentLinks :: "client \<Rightarrow> transport \<Rightarrow> run" where
  "listPaymentLinks = list_at (ascii ''https://snailpay.app/payment-link-list'')"

definition listPayouts :: "client \<Rightarrow> transport \<Rightarrow> run" where
  "listPayouts = list_at (ascii ''https://snailpay.app/payout'')"

text \<open>
  \<open>newPayout\<close> and \<open>refundPayment\<close> share \<open>post_at\<close>: a POST whose 200 response is
  not read, the promise being resolved with no value (\<open>undefined\<close>).
\<close>

definition post_at :: "js_string \<Rightarrow> js_value \<Rightarrow> client \<Rightarrow> transport \<Rightarrow> run" where
  "post_at u b c fetch =
     (let req = \<lparr>url = u, http_method = POST, headers = auth_headers c, body = Some b\<rparr>;
          r = call_fetch req start
      in case fetch req of
           FetchRejects e \<Rightarrow> throw e r
         | FetchFulfils res \<Rightarrow>
             (case res_catch res r of
                Inl e \<Rightarrow> throw e r
              | Inr r' \<Rightarrow>
                  if status res \<noteq> 200 then reject (Error (statusText res)) r'
                  else resolve JUndefined r'))"

definition newPayout :: "client \<Rightarrow> transport \<Rightarrow> js_value \<Rightarrow> run" where
  "newPayout c fetch amount =
     post_at (ascii ''https://snailpay.app/new-payout'') (JObj [(ascii ''amount'', amount)]) c fetch"

definition refundPayment :: "client \<Rightarrow> transport \<Rightarrow> js_value \<Rightarrow> run" where
  "refundPayment c fetch payments =
     post_at (ascii ''https://snailpay.app/refund-payment'')
       (JObj [(ascii ''payments'', payments)]) c fetch"

text \<open>The ten operations of a client, to state what holds of each of them.\<close>

datatype operation =
    VerifyPayment js_string
  | CreatePaymentLink js_object
  | CreateSubscriptionLink js_object
  | ListPayments
  | ListSubscriptions
  | ListSubscriptionLinks
  | ListPaymentLinks
  | ListPayouts
  | NewPayout js_value
  | RefundPayment js_value

fun invoke :: "client \<Rightarrow> transport \<Rightarrow> operation \<Rightarrow> run" where
  "invoke c fetch (VerifyPayment code) = verifyPayment c fetch code"
| "invoke c fetch (CreatePaymentLink options) = createPaymentLink c fetch options"
| "invoke c fetch (CreateSubscriptionLink options) = createSubscriptionLink c fetch options"
| "invoke c fetch ListPayments = listPayments c fetch"
| "invoke c fetch ListSubscriptions = listSubscriptions c fetch"
| "invoke c fetch ListSubscriptionLinks = listSubscriptionLinks c fetch"
| "invoke c fetch ListPaymentLinks = listPaymentLinks c fetch"
| "invoke c fetch ListPayouts = listPayouts c fetch"
| "invoke c fetch (NewPayout amount) = newPayout c fetch amount"
| "invoke c fetch (RefundPayment payments) = refundPayment c fetch payments"

section \<open>Basic facts\<close>

lemma sent_steps [simp]:
  "sent start = []"
  "sent (resolve v r) = sent r"
  "sent (reject e r) = sent r"
  "sent (throw e r) = sent r"
  "sent (call_fetch q r) = sent r @ [q]"
  "sent (resolve_caught p r) = sent r"
  by (simp_all add: start_def resolve_def reject_def throw_def call_fetch_def
      resolve_caught_def split: sum.splits)

lemma promise_steps [simp]:
  "promise start = Pending"
  "promise (throw e r) = promise r"
  "promise (call_fetch q r) = promise r"
  by (simp_all add: start_def throw_def call_fetch_def)

lemma uncaught_steps [simp]:
  "uncaught start = None"
  "uncaught (throw e r) = Some e"
  by (simp_all add: start_def throw_def)

lemma promise_resolve:
  "promise (resolve v r) = (if promise r = Pending then Fulfilled v else promise r)"
  by (simp add: resolve_def)

lemma promise_reject:
  "promise (reject e r) = (if promise r = Pending then Rejected e else promise r)"
  by (simp add: reject_def)

lemma res_catch_sent: "res_catch res r = Inr r' \<Longrightarrow> sent r' = sent r"
  by (auto simp: res_catch_def split: catch_member.splits option.splits)

lemma res_catch_Missing: "catch_prop res = Missing \<Longrightarrow> res_catch res r = Inl TypeError"
  by (simp add: res_catch_def)

lemma res_catch_quiet: "catch_prop res = Calls None \<Longrightarrow> res_catch res r = Inr r"
  by (simp add: res_catch_def)

text \<open>Every operation but a \<open>verifyPayment\<close> of a malformed code issues one request.\<close>

lemma sent_verifyPayment:
  "sent (verifyPayment c fetch code) =
     (if length code \<noteq> 10 then []
      else [\<lparr>url = ascii ''https://snailpay.app/verify-payment?code='' @ code,
             http_method = GET, headers = auth_headers c, body = None\<rparr>])"
  by (auto simp: verifyPayment_def Let_def
      split: fetch_outcome.splits sum.splits dest: res_catch_sent)

lemma sent_createPaymentLink:
  "sent (createPaymentLink c fetch options) =
     [\<lparr>url = ascii ''https://snailpay.app/payment-link'', http_method = POST,
       headers = auth_headers c, body = Some (link_body options)\<rparr>]"
  by (auto simp: createPaymentLink_def Let_def
      split: fetch_outcome.splits sum.splits dest: res_catch_sent)

lemma sent_createSubscriptionLink:
  "sent (createSubscriptionLink c fetch options) =
     [\<lparr>url = ascii ''https://snailpay.app/subscription-link'', http_method = POST,
       headers = auth_headers c, body = Some (link_body options)\<rparr>]"
  by (auto simp: createSubscriptionLink_def Let_def
      split: fetch_outcome.splits sum.splits dest: res_catch_sent)

lemma sent_list_at:
  "sent (list_at u c fetch) =
     [\<lparr>url = u, http_method = GET, headers = auth_headers c, body = None\<rparr>]"
  by (auto simp: list_at_def Let_def
      split: fetch_outcome.splits sum.splits dest: res_catch_sent)

lemma sent_post_at:
  "sent (post_at u b c fetch) =
     [\<lparr>url = u, http_method = POST, headers = auth_headers c, body = Some b\<rparr>]"
  by (auto simp: post_at_def Let_def
      split: fetch_outcome.splits sum.splits dest: res_catch_sent)

lemma headers_invoke:
  "q \<in> set (sent (invoke c fetch op)) \<Longrightarrow> headers q = auth_headers c"
  by (cases op)
    (auto simp: sent_verifyPayment sent_createPaymentLink sent_createSubscriptionLink
      sent_list_at sent_post_at listPayments_def listSubscriptions_def
      listSubscriptionLinks_def listPaymentLinks_def listPayouts_def newPayout_def
      refundPayment_def split: if_splits)

text \<open>
  With a response object that does carry a quiet \<open>catch\<close>, the status decides: this is
  the behaviour the operations were written for.
\<close>

lemma list_at_quiet_catch:
  assumes "fetch \<lparr>url = u, http_method = GET, headers = auth_headers c, body = None\<rparr> = FetchFulfils res"
    and "catch_prop res = Calls None"
  shows "promise (list_at u c fetch) =
     (if status res \<noteq> 200 then Rejected (Error (statusText res))
      else case json_body res of Inl e \<Rightarrow> Pending | Inr v \<Rightarrow> Fulfilled v)"
  using assms
  by (simp add: list_at_def Let_def res_catch_quiet promise_resolve promise_reject
      split: sum.splits)

lemma verifyPayment_quiet_catch:
  assumes "length code = 10"
    and "fetch \<lparr>url = ascii ''https://snailpay.app/verify-payment?code='' @ code,
                http_method = GET, headers = auth_headers c, body = None\<rparr> = FetchFulfils res"
    and "catch_prop res = Calls None"
  shows "promise (verifyPayment c fetch code) =
     (if status res \<noteq> 200 then Fulfilled (JBool False)
      else case json_body res of Inl e \<Rightarrow> Fulfilled JUndefined | Inr v \<Rightarrow> Fulfilled v)"
  using assms
  by (simp add: verifyPayment_def Let_def res_catch_quiet resolve_caught_def promise_resolve
      split: sum.splits)

section \<open>Construction\<close>

text \<open>
  C5. Constructing the client with a falsy API key (\<open>undefined\<close>, \<open>null\<close>, the empty
  string, \<open>0\<close>, \<open>NaN\<close>, \<open>false\<close>) throws at once; constructing it with a non-empty
  string succeeds and the client holds that key. The constructor takes no transport:
  it cannot issue a request.
\<close>

theorem Snail_key:
  "(\<not> truthy k \<longrightarrow> Snail k = Inl (Thrown (JStr (ascii ''You need to provide an API key!'')))) \<and>
   (s \<noteq> [] \<longrightarrow> Snail (JStr s) = Inr \<lparr>apiKey = JStr s\<rparr>)"
  by (simp add: Snail_def)

theorem Snail_key_witness:
  "\<not> truthy (JStr []) \<and>
   Snail (JStr []) = Inl (Thrown (JStr (ascii ''You need to provide an API key!''))) \<and>
   \<not> truthy JUndefined \<and>
   Snail JUndefined = Inl (Thrown (JStr (ascii ''You need to provide an API key!''))) \<and>
   ascii ''key'' \<noteq> [] \<and>
   Snail (JStr (ascii ''key'')) = Inr \<lparr>apiKey = JStr (ascii ''key'')\<rparr>"
  using Snail_key [of "JStr []" "ascii ''key''"] Snail_key [of JUndefined "ascii ''key''"]
  by (simp add: ascii_def)

section \<open>verifyPayment\<close>

text \<open>
  C4. For every string whose length is not 10, \<open>verifyPayment\<close> resolves to \<open>false\<close>
  and passes no request to the transport.
\<close>

theorem verifyPayment_malformed:
  "length code \<noteq> 10 \<Longrightarrow>
   verifyPayment c fetch code = \<lparr>promise = Fulfilled (JBool False), sent = [], uncaught = None\<rparr>"
  by (simp add: verifyPayment_def resolve_def start_def)

theorem verifyPayment_malformed_witness:
  "length (ascii ''abc'') \<noteq> 10 \<and>
   verifyPayment \<lparr>apiKey = JStr (ascii ''key'')\<rparr> (\<lambda>q. FetchRejects TypeError) (ascii ''abc'')
     = \<lparr>promise = Fulfilled (JBool False), sent = [], uncaught = None\<rparr>"
  using verifyPayment_malformed
    [of "ascii ''abc''" "\<lparr>apiKey = JStr (ascii ''key'')\<rparr>" "\<lambda>q. FetchRejects TypeError"]
  by (simp add: ascii_def)

text \<open>
  C10. For every 10-character code the one request \<open>verifyPayment\<close> issues has the URL
  \<open>https://snailpay.app/verify-payment?code=\<close> followed by the code as it is: no code
  unit of it is escaped or changed.
\<close>

theorem verifyPayment_url:
  "length code = 10 \<Longrightarrow>
   map url (sent (verifyPayment c fetch code)) =
     [ascii ''https://snailpay.app/verify-payment?code='' @ code]"
  by (simp add: sent_verifyPayment)

theorem verifyPayment_url_witness:
  "length (ascii ''a b&c=d?/#'') = 10 \<and>
   map url (sent (verifyPayment \<lparr>apiKey = JStr (ascii ''key'')\<rparr> (\<lambda>q. FetchRejects TypeError)
      (ascii ''a b&c=d?/#''))) =
     [ascii ''https://snailpay.app/verify-payment?code=a b&c=d?/#'']"
  using verifyPayment_url
    [of "ascii ''a b&c=d?/#''" "\<lparr>apiKey = JStr (ascii ''key'')\<rparr>" "\<lambda>q. FetchRejects TypeError"]
  by (simp add: ascii_def)

section \<open>Headers\<close>

text \<open>
  C8. Every request issued by any of the ten operations of a client constructed with
  the key \<open>k\<close> carries exactly two headers: \<open>Authorization\<close> with the value \<open>k\<close> and
  \<open>Content-Type\<close> with the value \<open>application/json\<close>.
\<close>

theorem request_headers:
  "Snail k = Inr c \<Longrightarrow> q \<in> set (sent (invoke c fetch op)) \<Longrightarrow>
   headers q = [(ascii ''Authorization'', k),
                (ascii ''Content-Type'', JStr (ascii ''application/json''))]"
  by (auto simp: Snail_def auth_headers_def split: if_splits dest!: headers_invoke)

theorem request_headers_witness:
  "Snail (JStr (ascii ''key'')) = Inr \<lparr>apiKey = JStr (ascii ''key'')\<rparr> \<and>
   \<lparr>url = ascii ''https://snailpay.app/new-payout'', http_method = POST,
     headers = [(ascii ''Authorization'', JStr (ascii ''key'')),
                (ascii ''Content-Type'', JStr (ascii ''application/json''))],
     body = Some (JObj [(ascii ''amount'', JNum (Finite 5))])\<rparr>
     \<in> set (sent (invoke \<lparr>apiKey = JStr (ascii ''key'')\<rparr> (\<lambda>q. FetchRejects TypeError)
          (NewPayout (JNum (Finite 5))))) \<and>
   headers \<lparr>url = ascii ''https://snailpay.app/new-payout'', http_method = POST,
     headers = [(ascii ''Authorization'', JStr (ascii ''key'')),
                (ascii ''Content-Type'', JStr (ascii ''application/json''))],
     body = Some (JObj [(ascii ''amount'', JNum (Finite 5))])\<rparr>
     = [(ascii ''Authorization'', JStr (ascii ''key'')),
        (ascii ''Content-Type'', JStr (ascii ''application/json''))]"
proof -
  have a: "Snail (JStr (ascii ''key'')) = Inr \<lparr>apiKey = JStr (ascii ''key'')\<rparr>"
    by (simp add: Snail_def ascii_def)
  have b: "\<lparr>url = ascii ''https://snailpay.app/new-payout'', http_method = POST,
     headers = [(ascii ''Authorization'', JStr (ascii ''key'')),
                (ascii ''Content-Type'', JStr (ascii ''application/json''))],
     body = Some (JObj [(ascii ''amount'', JNum (Finite 5))])\<rparr>
     \<in> set (sent (invoke \<lparr>apiKey = JStr (ascii ''key'')\<rparr> (\<lambda>q. FetchRejects TypeError)
          (NewPayout (JNum (Finite 5)))))"
    by (simp add: newPayout_def post_at_def Let_def auth_headers_def)
  from request_headers [OF a b] a b show ?thesis by simp
qed

section \<open>Link creation\<close>

text \<open>
  With a truthy name and a truthy price nothing is signalled before the request: the
  promise is what the transport's answer alone makes it.
\<close>

lemma createPaymentLink_valid:
  assumes "truthy (get_prop options (ascii ''name''))"
    and "truthy (get_prop options (ascii ''price''))"
  shows "promise (createPaymentLink c fetch options) =
     (case fetch \<lparr>url = ascii ''https://snailpay.app/payment-link'', http_method = POST,
                  headers = auth_headers c, body = Some (link_body options)\<rparr> of
        FetchRejects e \<Rightarrow> Pending
      | FetchFulfils res \<Rightarrow>
          (case catch_prop res of
             Missing \<Rightarrow> Pending
           | Calls (Some e) \<Rightarrow> Rejected e
           | Calls None \<Rightarrow>
               if status res \<noteq> 200 then Rejected (Error (statusText res))
               else (case text_body res of
                       Inl e \<Rightarrow> Pending
                     | Inr u \<Rightarrow> Fulfilled (JStr u))))"
  using assms
  by (auto simp: createPaymentLink_def Let_def res_catch_def promise_resolve promise_reject
      split: fetch_outcome.splits sum.splits catch_member.splits option.splits)

lemma createSubscriptionLink_valid:
  assumes "truthy (get_prop options (ascii ''name''))"
    and "truthy (get_prop options (ascii ''price''))"
  shows "promise (createSubscriptionLink c fetch options) =
     (case fetch \<lparr>url = ascii ''https://snailpay.app/subscription-link'', http_method = POST,
                  headers = auth_headers c, body = Some (link_body options)\<rparr> of
        FetchRejects e \<Rightarrow> Pending
      | FetchFulfils res \<Rightarrow>
          (case catch_prop res of
             Missing \<Rightarrow> Pending
           | Calls (Some e) \<Rightarrow> Rejected e
           | Calls None \<Rightarrow>
               if status res \<noteq> 200 then Rejected (Error (statusText res))
               else (case text_body res of
                       Inl e \<Rightarrow> Pending
                     | Inr u \<Rightarrow> Fulfilled (JStr u))))"
  using assms
  by (auto simp: createSubscriptionLink_def Let_def res_catch_def promise_resolve promise_reject
      split: fetch_outcome.splits sum.splits catch_member.splits option.splits)

lemma createPaymentLink_missing:
  assumes "\<not> truthy (get_prop options (ascii ''name'')) \<or>
           \<not> truthy (get_prop options (ascii ''price''))"
  shows "promise (createPaymentLink c fetch options) = Rejected missing_fields"
  using assms
  by (auto simp: createPaymentLink_def Let_def res_catch_def promise_resolve promise_reject
      split: fetch_outcome.splits sum.splits catch_member.splits option.splits)

lemma createSubscriptionLink_missing:
  assumes "\<not> truthy (get_prop options (ascii ''name'')) \<or>
           \<not> truthy (get_prop options (ascii ''price''))"
  shows "promise (createSubscriptionLink c fetch options) = Rejected missing_fields"
  using assms
  by (auto simp: createSubscriptionLink_def Let_def res_catch_def promise_resolve promise_reject
      split: fetch_outcome.splits sum.splits catch_member.splits option.splits)

text \<open>
  C9. \<open>createPaymentLink\<close> and \<open>createSubscriptionLink\<close> signal the missing-field
  error exactly when \<open>options.name\<close> or \<open>options.price\<close> is falsy. When one is
  falsy, the promise is rejected with that error under every transport. When both
  are truthy, the client signals nothing of its own: under every transport the
  promise is what the transport's answer alone makes it (pending when \<open>fetch\<close> fails
  or the response has no \<open>catch\<close>; otherwise the reason the response's \<open>catch\<close>
  hands over, the status text of a status other than 200, or the text of the body),
  so it carries the missing-field error only if the transport itself supplies it.
  A price of \<open>0\<close> and an empty name are falsy; a negative price is truthy, and no
  other test is made of the price. The request is issued in every case.
\<close>

theorem link_validation:
  "((\<forall>fetch. promise (createPaymentLink c fetch options) = Rejected missing_fields) \<longleftrightarrow>
      (\<not> truthy (get_prop options (ascii ''name'')) \<or>
       \<not> truthy (get_prop options (ascii ''price'')))) \<and>
   ((\<forall>fetch. promise (createSubscriptionLink c fetch options) = Rejected missing_fields) \<longleftrightarrow>
      (\<not> truthy (get_prop options (ascii ''name'')) \<or>
       \<not> truthy (get_prop options (ascii ''price'')))) \<and>
   \<not> truthy (JNum (Finite 0)) \<and> \<not> truthy (JStr []) \<and>
   (p < 0 \<longrightarrow> truthy (JNum (Finite p))) \<and>
   sent (createPaymentLink c fetch' options) =
     [\<lparr>url = ascii ''https://snailpay.app/payment-link'', http_method = POST,
       headers = auth_headers c, body = Some (link_body options)\<rparr>] \<and>
   sent (createSubscriptionLink c fetch' options) =
     [\<lparr>url = ascii ''https://snailpay.app/subscription-link'', http_method = POST,
       headers = auth_headers c, body = Some (link_body options)\<rparr>] \<and>
   (truthy (get_prop options (ascii ''name'')) \<and> truthy (get_prop options (ascii ''price'')) \<longrightarrow>
      promise (createPaymentLink c fetch' options) =
        (case fetch' \<lparr>url = ascii ''https://snailpay.app/payment-link'', http_method = POST,
                      headers = auth_headers c, body = Some (link_body options)\<rparr> of
           FetchRejects e \<Rightarrow> Pending
         | FetchFulfils res \<Rightarrow>
             (case catch_prop res of
                Missing \<Rightarrow> Pending
              | Calls (Some e) \<Rightarrow> Rejected e
              | Calls None \<Rightarrow>
                  if status res \<noteq> 200 then Rejected (Error (statusText res))
                  else (case text_body res of
                          Inl e \<Rightarrow> Pending
                        | Inr u \<Rightarrow> Fulfilled (JStr u)))) \<and>
      promise (createSubscriptionLink c fetch' options) =
        (case fetch' \<lparr>url = ascii ''https://snailpay.app/subscription-link'',
                      http_method = POST,
                      headers = auth_headers c, body = Some (link_body options)\<rparr> of
           FetchRejects e \<Rightarrow> Pending
         | FetchFulfils res \<Rightarrow>
             (case catch_prop res of
                Missing \<Rightarrow> Pending
              | Calls (Some e) \<Rightarrow> Rejected e
              | Calls None \<Rightarrow>
                  if status res \<noteq> 200 then Rejected (Error (statusText res))
                  else (case text_body res of
                          Inl e \<Rightarrow> Pending
                        | Inr u \<Rightarrow> Fulfilled (JStr u))))) \<and>
   (\<not> truthy (get_prop options (ascii ''name'')) \<or>
    \<not> truthy (get_prop options (ascii ''price'')) \<longrightarrow>
      promise (createPaymentLink c fetch' options) = Rejected missing_fields \<and>
      promise (createSubscriptionLink c fetch' options) = Rejected missing_fields)"
proof -
  let ?bad = "\<not> truthy (get_prop options (ascii ''name'')) \<or>
              \<not> truthy (get_prop options (ascii ''price''))"
  have p2: "promise (createPaymentLink c (\<lambda>q. FetchRejects TypeError) options) = Pending"
    if "\<not> ?bad"
    using that by (simp add: createPaymentLink_valid)
  have s2: "promise (createSubscriptionLink c (\<lambda>q. FetchRejects TypeError) options) = Pending"
    if "\<not> ?bad"
    using that by (simp add: createSubscriptionLink_valid)
  have a: "(\<forall>fetch. promise (createPaymentLink c fetch options) = Rejected missing_fields)
      \<longleftrightarrow> ?bad"
  proof
    assume all: "\<forall>fetch. promise (createPaymentLink c fetch options) = Rejected missing_fields"
    show "?bad"
    proof (rule ccontr)
      assume "\<not> ?bad"
      from p2 [OF this] all show False by simp
    qed
  next
    assume "?bad"
    then show "\<forall>fetch. promise (createPaymentLink c fetch options) = Rejected missing_fields"
      using createPaymentLink_missing by blast
  qed
  have b: "(\<forall>fetch. promise (createSubscriptionLink c fetch options) = Rejected missing_fields)
      \<longleftrightarrow> ?bad"
  proof
    assume all: "\<forall>fetch. promise (createSubscriptionLink c fetch options) = Rejected missing_fields"
    show "?bad"
    proof (rule ccontr)
      assume "\<not> ?bad"
      from s2 [OF this] all show False by simp
    qed
  next
    assume "?bad"
    then show "\<forall>fetch. promise (createSubscriptionLink c fetch options) = Rejected missing_fields"
      using createSubscriptionLink_missing by blast
  qed
  have c1: "\<not> truthy (JNum (Finite 0)) \<and> \<not> truthy (JStr []) \<and>
      (p < 0 \<longrightarrow> truthy (JNum (Finite p)))"
    by simp
  have d: "truthy (get_prop options (ascii ''name'')) \<and>
      truthy (get_prop options (ascii ''price'')) \<longrightarrow>
      promise (createPaymentLink c fetch' options) =
        (case fetch' \<lparr>url = ascii ''https://snailpay.app/payment-link'', http_method = POST,
                      headers = auth_headers c, body = Some (link_body options)\<rparr> of
           FetchRejects e \<Rightarrow> Pending
         | FetchFulfils res \<Rightarrow>
             (case catch_prop res of
                Missing \<Rightarrow> Pending
              | Calls (Some e) \<Rightarrow> Rejected e
              | Calls None \<Rightarrow>
                  if status res \<noteq> 200 then Rejected (Error (statusText res))
                  else (case text_body res of
                          Inl e \<Rightarrow> Pending
                        | Inr u \<Rightarrow> Fulfilled (JStr u)))) \<and>
      promise (createSubscriptionLink c fetch' options) =
        (case fetch' \<lparr>url = ascii ''https://snailpay.app/subscription-link'',
                      http_method = POST,
                      headers = auth_headers c, body = Some (link_body options)\<rparr> of
           FetchRejects e \<Rightarrow> Pending
         | FetchFulfils res \<Rightarrow>
             (case catch_prop res of
                Missing \<Rightarrow> Pending
              | Calls (Some e) \<Rightarrow> Rejected e
              | Calls None \<Rightarrow>
                  if status res \<noteq> 200 then Rejected (Error (statusText res))
                  else (case text_body res of
                          Inl e \<Rightarrow> Pending
                        | Inr u \<Rightarrow> Fulfilled (JStr u))))"
    using createPaymentLink_valid [of options c fetch']
      createSubscriptionLink_valid [of options c fetch']
    by blast
  have e: "?bad \<longrightarrow>
      promise (createPaymentLink c fetch' options) = Rejected missing_fields \<and>
      promise (createSubscriptionLink c fetch' options) = Rejected missing_fields"
    using createPaymentLink_missing [of options c fetch']
      createSubscriptionLink_missing [of options c fetch']
    by blast
  have f: "sent (createPaymentLink c fetch' options) =
     [\<lparr>url = ascii ''https://snailpay.app/payment-link'', http_method = POST,
       headers = auth_headers c, body = Some (link_body options)\<rparr>] \<and>
   sent (createSubscriptionLink c fetch' options) =
     [\<lparr>url = ascii ''https://snailpay.app/subscription-link'', http_method = POST,
       headers = auth_headers c, body = Some (link_body options)\<rparr>]"
    by (simp add: sent_createPaymentLink sent_createSubscriptionLink)
  from a b c1 d e f show ?thesis
    by blast
qed

theorem link_validation_witness:
  "\<not> truthy (get_prop [(ascii ''name'', JStr (ascii ''Widget'')), (ascii ''price'', JNum (Finite 0))]
       (ascii ''price'')) \<and>
   promise (createPaymentLink \<lparr>apiKey = JStr (ascii ''key'')\<rparr> (\<lambda>q. FetchRejects TypeError)
     [(ascii ''name'', JStr (ascii ''Widget'')), (ascii ''price'', JNum (Finite 0))])
     = Rejected missing_fields \<and>
   \<not> truthy (get_prop [(ascii ''name'', JStr []), (ascii ''price'', JNum (Finite 5))]
       (ascii ''name'')) \<and>
   promise (createSubscriptionLink \<lparr>apiKey = JStr (ascii ''key'')\<rparr> (\<lambda>q. FetchRejects TypeError)
     [(ascii ''name'', JStr []), (ascii ''price'', JNum (Finite 5))])
     = Rejected missing_fields \<and>
   (- 5 :: rat) < 0 \<and> truthy (JNum (Finite (- 5))) \<and>
   promise (createPaymentLink \<lparr>apiKey = JStr (ascii ''key'')\<rparr> (\<lambda>q. FetchRejects TypeError)
     [(ascii ''name'', JStr (ascii ''Widget'')), (ascii ''price'', JNum (Finite (- 5)))])
     = Pending \<and>
   sent (createPaymentLink \<lparr>apiKey = JStr (ascii ''key'')\<rparr> (\<lambda>q. FetchRejects TypeError)
     [(ascii ''name'', JStr (ascii ''Widget'')), (ascii ''price'', JNum (Finite (- 5)))])
     = [\<lparr>url = ascii ''https://snailpay.app/payment-link'', http_method = POST,
         headers = auth_headers \<lparr>apiKey = JStr (ascii ''key'')\<rparr>,
         body = Some (JObj [(ascii ''image'', JUndefined),
                            (ascii ''name'', JStr (ascii ''Widget'')),
                            (ascii ''price'', JNum (Finite (- 5)))])\<rparr>] \<and>
   truthy (get_prop [(ascii ''name'', JStr (ascii ''Widget'')), (ascii ''price'', JNum (Finite (- 5)))]
       (ascii ''name'')) \<and>
   truthy (get_prop [(ascii ''name'', JStr (ascii ''Widget'')), (ascii ''price'', JNum (Finite (- 5)))]
       (ascii ''price'')) \<and>
   promise (createPaymentLink \<lparr>apiKey = JStr (ascii ''key'')\<rparr>
     (\<lambda>q. FetchFulfils \<lparr>status = 200, statusText = ascii ''OK'',
        text_body = Inr (ascii ''https://pay/x''), json_body = Inl TypeError,
        catch_prop = Calls None\<rparr>)
     [(ascii ''name'', JStr (ascii ''Widget'')), (ascii ''price'', JNum (Finite (- 5)))])
     = Fulfilled (JStr (ascii ''https://pay/x'')) \<and>
   promise (createSubscriptionLink \<lparr>apiKey = JStr (ascii ''key'')\<rparr>
     (\<lambda>q. FetchFulfils \<lparr>status = 500, statusText = ascii ''Internal Server Error'',
        text_body = Inr [], json_body = Inl TypeError, catch_prop = Calls None\<rparr>)
     [(ascii ''name'', JStr (ascii ''Widget'')), (ascii ''price'', JNum (Finite (- 5)))])
     = Rejected (Error (ascii ''Internal Server Error'')) \<and>
   promise (createSubscriptionLink \<lparr>apiKey = JStr (ascii ''key'')\<rparr>
     (\<lambda>q. FetchFulfils \<lparr>status = 200, statusText = ascii ''OK'',
        text_body = Inr (ascii ''https://pay/x''), json_body = Inl TypeError,
        catch_prop = Missing\<rparr>)
     [(ascii ''name'', JStr (ascii ''Widget'')), (ascii ''price'', JNum (Finite (- 5)))])
     = Pending"
proof -
  let ?c = "\<lparr>apiKey = JStr (ascii ''key'')\<rparr>"
  let ?f = "\<lambda>q::request. FetchRejects TypeError"
  let ?ok = "\<lambda>q::request. FetchFulfils \<lparr>status = 200, statusText = ascii ''OK'',
        text_body = Inr (ascii ''https://pay/x''), json_body = Inl TypeError,
        catch_prop = Calls None\<rparr>"
  let ?err = "\<lambda>q::request. FetchFulfils \<lparr>status = 500,
        statusText = ascii ''Internal Server Error'',
        text_body = Inr [], json_body = Inl TypeError, catch_prop = Calls None\<rparr>"
  let ?std = "\<lambda>q::request. FetchFulfils \<lparr>status = 200, statusText = ascii ''OK'',
        text_body = Inr (ascii ''https://pay/x''), json_body = Inl TypeError,
        catch_prop = Missing\<rparr>"
  let ?zero = "[(ascii ''name'', JStr (ascii ''Widget'')), (ascii ''price'', JNum (Finite 0))]"
  let ?noname = "[(ascii ''name'', JStr []), (ascii ''price'', JNum (Finite 5))]"
  let ?neg = "[(ascii ''name'', JStr (ascii ''Widget'')), (ascii ''price'', JNum (Finite (- 5)))]"
  have z: "\<not> truthy (get_prop ?zero (ascii ''price''))"
    by (simp add: ascii_def)
  have n: "\<not> truthy (get_prop ?noname (ascii ''name''))"
    by (simp add: ascii_def)
  have v: "truthy (get_prop ?neg (ascii ''name'')) \<and> truthy (get_prop ?neg (ascii ''price''))"
    by (simp add: ascii_def)
  from link_validation [of ?c ?zero 0 ?f] z
  have 1: "promise (createPaymentLink ?c ?f ?zero) = Rejected missing_fields"
    by blast
  from link_validation [of ?c ?noname 0 ?f] n
  have 2: "promise (createSubscriptionLink ?c ?f ?noname) = Rejected missing_fields"
    by blast
  have 4: "link_body ?neg = JObj [(ascii ''image'', JUndefined),
                            (ascii ''name'', JStr (ascii ''Widget'')),
                            (ascii ''price'', JNum (Finite (- 5)))]"
    by (simp add: link_body_def ascii_def)
  from link_validation [of ?c ?neg "- 5" ?f] 4 v
  have 5: "truthy (JNum (Finite (- 5))) \<and>
     promise (createPaymentLink ?c ?f ?neg) = Pending \<and>
     sent (createPaymentLink ?c ?f ?neg)
     = [\<lparr>url = ascii ''https://snailpay.app/payment-link'', http_method = POST,
         headers = auth_headers ?c,
         body = Some (JObj [(ascii ''image'', JUndefined),
                            (ascii ''name'', JStr (ascii ''Widget'')),
                            (ascii ''price'', JNum (Finite (- 5)))])\<rparr>]"
    by simp
  from link_validation [of ?c ?neg "- 5" ?ok] v
  have 6: "promise (createPaymentLink ?c ?ok ?neg) = Fulfilled (JStr (ascii ''https://pay/x''))"
    by simp
  from link_validation [of ?c ?neg "- 5" ?err] v
  have 7: "promise (createSubscriptionLink ?c ?err ?neg)
      = Rejected (Error (ascii ''Internal Server Error''))"
    by simp
  from link_validation [of ?c ?neg "- 5" ?std] v
  have 8: "promise (createSubscriptionLink ?c ?std ?neg) = Pending"
    by simp
  from z n v 1 2 5 6 7 8 show ?thesis by simp
qed

text \<open>
  C1. With the options \<open>{}\<close> the promise of \<open>createPaymentLink\<close> is rejected with the
  missing-field error, and the POST to \<open>/payment-link\<close> is issued all the same: after
  \<open>reject\<close> the executor goes on to \<open>fetch\<close>.
\<close>

theorem createPaymentLink_empty_options_sends:
  "promise (createPaymentLink c fetch []) = Rejected missing_fields \<and>
   sent (createPaymentLink c fetch []) =
     [\<lparr>url = ascii ''https://snailpay.app/payment-link'', http_method = POST,
       headers = auth_headers c,
       body = Some (JObj [(ascii ''image'', JUndefined), (ascii ''name'', JUndefined),
                          (ascii ''price'', JUndefined)])\<rparr>]"
proof -
  have "promise (createPaymentLink c fetch []) = Rejected missing_fields"
    by (auto simp: createPaymentLink_def Let_def res_catch_def promise_resolve promise_reject
        split: fetch_outcome.splits sum.splits catch_member.splits option.splits)
  then show ?thesis
    by (simp add: sent_createPaymentLink link_body_def)
qed

theorem createPaymentLink_empty_options_sends_witness:
  "promise (createPaymentLink \<lparr>apiKey = JStr (ascii ''key'')\<rparr> (\<lambda>q. FetchRejects TypeError) [])
     = Rejected missing_fields \<and>
   sent (createPaymentLink \<lparr>apiKey = JStr (ascii ''key'')\<rparr> (\<lambda>q. FetchRejects TypeError) []) =
     [\<lparr>url = ascii ''https://snailpay.app/payment-link'', http_method = POST,
       headers = auth_headers \<lparr>apiKey = JStr (ascii ''key'')\<rparr>,
       body = Some (JObj [(ascii ''image'', JUndefined), (ascii ''name'', JUndefined),
                          (ascii ''price'', JUndefined)])\<rparr>]"
  by (rule createPaymentLink_empty_options_sends)

text \<open>
  C6. \<open>createPaymentLink({name: "Widget", price: 5})\<close> answered by a Response of the
  Fetch standard, which has no \<open>catch\<close>: \<open>res.catch(reject)\<close> raises a TypeError
  inside the executor, and the promise stays pending, for the status 200 with the
  body \<open>https://pay/x\<close> as for the status 500.
\<close>

theorem createPaymentLink_standard_response:
  "createPaymentLink c
     (\<lambda>q. FetchFulfils \<lparr>status = 200, statusText = ascii ''OK'',
        text_body = Inr (ascii ''https://pay/x''), json_body = j, catch_prop = Missing\<rparr>)
     [(ascii ''name'', JStr (ascii ''Widget'')), (ascii ''price'', JNum (Finite 5))]
   = \<lparr>promise = Pending,
      sent = [\<lparr>url = ascii ''https://snailpay.app/payment-link'', http_method = POST,
               headers = auth_headers c,
               body = Some (JObj [(ascii ''image'', JUndefined),
                                  (ascii ''name'', JStr (ascii ''Widget'')),
                                  (ascii ''price'', JNum (Finite 5))])\<rparr>],
      uncaught = Some TypeError\<rparr> \<and>
   promise (createPaymentLink c
     (\<lambda>q. FetchFulfils \<lparr>status = 500, statusText = ascii ''Internal Server Error'',
        text_body = t, json_body = j, catch_prop = Missing\<rparr>)
     [(ascii ''name'', JStr (ascii ''Widget'')), (ascii ''price'', JNum (Finite 5))])
   = Pending"
  by (simp add: createPaymentLink_def Let_def res_catch_def link_body_def ascii_def
      start_def call_fetch_def throw_def)

theorem createPaymentLink_standard_response_witness:
  "createPaymentLink \<lparr>apiKey = JStr (ascii ''key'')\<rparr>
     (\<lambda>q. FetchFulfils \<lparr>status = 200, statusText = ascii ''OK'',
        text_body = Inr (ascii ''https://pay/x''), json_body = Inl TypeError,
        catch_prop = Missing\<rparr>)
     [(ascii ''name'', JStr (ascii ''Widget'')), (ascii ''price'', JNum (Finite 5))]
   = \<lparr>promise = Pending,
      sent = [\<lparr>url = ascii ''https://snailpay.app/payment-link'', http_method = POST,
               headers = auth_headers \<lparr>apiKey = JStr (ascii ''key'')\<rparr>,
               body = Some (JObj [(ascii ''image'', JUndefined),
                                  (ascii ''name'', JStr (ascii ''Widget'')),
                                  (ascii ''price'', JNum (Finite 5))])\<rparr>],
      uncaught = Some TypeError\<rparr> \<and>
   promise (createPaymentLink \<lparr>apiKey = JStr (ascii ''key'')\<rparr>
     (\<lambda>q. FetchFulfils \<lparr>status = 500, statusText = ascii ''Internal Server Error'',
        text_body = Inr [], json_body = Inl TypeError, catch_prop = Missing\<rparr>)
     [(ascii ''name'', JStr (ascii ''Widget'')), (ascii ''price'', JNum (Finite 5))])
   = Pending"
  by (rule createPaymentLink_standard_response)

section \<open>Responses and failures\<close>

text \<open>
  C3. \<open>verifyPayment\<close> of a 10-character code answered by a Response of the Fetch
  standard: \<open>res.catch(reject)\<close> raises a TypeError inside the executor before the
  status is looked at, and the promise stays pending, for the status 200 with the
  body \<open>{"id":"p1"}\<close> as for the status 404.
\<close>

theorem verifyPayment_standard_response:
  "promise (verifyPayment c
     (\<lambda>q. FetchFulfils \<lparr>status = 200, statusText = ascii ''OK'', text_body = t,
        json_body = Inr (JObj [(ascii ''id'', JStr (ascii ''p1''))]), catch_prop = Missing\<rparr>)
     (ascii ''ABCDEFGHIJ'')) = Pending \<and>
   uncaught (verifyPayment c
     (\<lambda>q. FetchFulfils \<lparr>status = 200, statusText = ascii ''OK'', text_body = t,
        json_body = Inr (JObj [(ascii ''id'', JStr (ascii ''p1''))]), catch_prop = Missing\<rparr>)
     (ascii ''ABCDEFGHIJ'')) = Some TypeError \<and>
   promise (verifyPayment c
     (\<lambda>q. FetchFulfils \<lparr>status = 404, statusText = ascii ''Not Found'', text_body = t,
        json_body = j, catch_prop = Missing\<rparr>)
     (ascii ''ABCDEFGHIJ'')) = Pending"
  by (simp add: verifyPayment_def Let_def res_catch_def ascii_def)

text \<open>
  C2. When the promise of \<open>fetch\<close> is rejected with \<open>e\<close>, the \<open>await\<close> raises \<open>e\<close>
  inside the executor; nothing calls \<open>reject\<close>, and the promise of \<open>listPayments\<close>
  and of \<open>verifyPayment\<close> stays pending. One request has been issued (no retry).
\<close>

theorem transport_failure_lost:
  "listPayments c (\<lambda>q. FetchRejects e) =
     \<lparr>promise = Pending,
      sent = [\<lparr>url = ascii ''https://snailpay.app/payment-list'', http_method = GET,
               headers = auth_headers c, body = None\<rparr>],
      uncaught = Some e\<rparr> \<and>
   verifyPayment c (\<lambda>q. FetchRejects e) (ascii ''ABCDEFGHIJ'') =
     \<lparr>promise = Pending,
      sent = [\<lparr>url = ascii ''https://snailpay.app/verify-payment?code=ABCDEFGHIJ'',
               http_method = GET, headers = auth_headers c, body = None\<rparr>],
      uncaught = Some e\<rparr>"
  by (simp add: listPayments_def list_at_def verifyPayment_def Let_def ascii_def
      start_def call_fetch_def throw_def)

text \<open>
  C7. A status other than 200 on a Response of the Fetch standard: \<open>listPayments\<close>
  answered with 201 and \<open>newPayout\<close> answered with 204 leave the promise pending;
  it is not rejected with the status text.
\<close>

theorem other_2xx_standard_response:
  "promise (listPayments c
     (\<lambda>q. FetchFulfils \<lparr>status = 201, statusText = ascii ''Created'', text_body = t,
        json_body = j, catch_prop = Missing\<rparr>)) = Pending \<and>
   uncaught (listPayments c
     (\<lambda>q. FetchFulfils \<lparr>status = 201, statusText = ascii ''Created'', text_body = t,
        json_body = j, catch_prop = Missing\<rparr>)) = Some TypeError \<and>
   promise (newPayout c
     (\<lambda>q. FetchFulfils \<lparr>status = 204, statusText = ascii ''No Content'', text_body = t,
        json_body = j, catch_prop = Missing\<rparr>) (JNum (Finite 5))) = Pending"
  by (simp add: listPayments_def list_at_def newPayout_def post_at_def Let_def res_catch_def)

end
